theory Spec2Isabelle
  imports Main "HOL-Library.Multiset"
begin

section \<open>The GenBank retriever (s28494\_2025-2.py)\<close>

text \<open>
  The class \<open>NCBIRetriever\<close> talks to three remote operations of the Entrez gateway and
  keeps the handle of the last successful search in attributes of the object. The model
  threads the object through every method (the method returns the object it leaves
  behind), returns what the method returns, and lists, in program order, the effects of
  the call: the lines printed, the gateway requests issued, the rows and plots written.
\<close>

subsection \<open>Exceptions and external collaborators\<close>

text \<open>
  Every \<open>except Exception\<close> of the source catches whatever the body raises. An
  exception raised by an external call is a \<open>Fault\<close> with its text; \<open>KeyError\<close> and
  \<open>IndexError\<close> are the ones the subscripts of the source itself raise.
\<close>

datatype exn = Fault string | KeyError string | IndexError

text \<open>A parsed GenBank record: the three attributes the program reads.\<close>

record seq_record =
  id_attr :: string
  seq :: string
  description :: string

text \<open>
  The external collaborators, each a fixed function of its request:
  \<^item> \<open>efetch_taxonomy taxid\<close> is \<open>Entrez.read(Entrez.efetch(db="taxonomy", id=taxid,
    retmode="xml"))\<close>: a list of dictionaries, or the exception either call raises;
  \<^item> \<open>esearch term\<close> is \<open>Entrez.read(Entrez.esearch(db="nucleotide", term=term,
    usehistory="y"))\<close>: a dictionary, or the exception;
  \<^item> \<open>efetch_nucleotide retstart retmax webenv query_key\<close> is
    \<open>list(SeqIO.parse(Entrez.efetch(db="nucleotide", rettype="gb", retmode="text", ...),
    "genbank"))\<close>: the parsed records, or the exception;
  \<^item> \<open>py_int\<close> is Python's built-in \<open>int\<close> on a string: the integer, or the
    \<open>ValueError\<close> it raises;
  \<^item> \<open>open_write path\<close> is \<open>open(path, mode="w", ...)\<close> and \<open>savefig path\<close> is
    \<open>plt.savefig(path)\<close>: \<open>None\<close> when the call succeeds, the exception otherwise.
  Dictionaries are association lists read with \<open>map_of\<close>.
\<close>

record env =
  efetch_taxonomy :: "string \<Rightarrow> exn + (string \<times> string) list list"
  esearch :: "string \<Rightarrow> exn + (string \<times> string) list"
  efetch_nucleotide :: "int \<Rightarrow> int \<Rightarrow> string \<Rightarrow> string \<Rightarrow> exn + seq_record list"
  py_int :: "string \<Rightarrow> exn + int"
  open_write :: "string \<Rightarrow> exn option"
  savefig :: "string \<Rightarrow> exn option"

subsection \<open>Effects\<close>

text \<open>One constructor per \<open>print\<close> statement of the class, with the values it formats.\<close>

datatype message =
    Searching string
  | Organism string string
  | NoRecordsFound string
  | Found int
  | ErrorSearching string exn
  | NoSearchResults
  | ErrorFetching exn
  | CsvSaved string
  | ErrorCsv exn
  | PlotSaved string
  | ErrorPlot exn

text \<open>A cell handed to \<open>csv.writer.writerow\<close>: a string or an integer.\<close>

datatype cell = Str string | Num int

datatype event =
    Print message
  | EfetchTaxonomy string
  | Esearch string
  | EfetchNucleotide int int string string
  | OpenWrite string
  | WriteRow "cell list"
  | Plot "string list" "int list"
  | Savefig string

fun is_request :: "event \<Rightarrow> bool" where
  "is_request (EfetchTaxonomy _) = True"
| "is_request (Esearch _) = True"
| "is_request (EfetchNucleotide _ _ _ _) = True"
| "is_request _ = False"

subsection \<open>The object\<close>

text \<open>
  An attribute that has not been assigned yet is \<open>None\<close>: \<open>hasattr(self, 'webenv')\<close> is
  \<open>webenv self \<noteq> None\<close>. The attribute \<open>count\<close> of the source is \<open>count_attr\<close>.
\<close>

record retriever =
  email :: string
  api_key :: string
  webenv :: "string option"
  query_key :: "string option"
  count_attr :: "int option"

definition NCBIRetriever_init :: "string \<Rightarrow> string \<Rightarrow> retriever" where
  "NCBIRetriever_init em key =
     \<lparr>email = em, api_key = key, webenv = None, query_key = None, count_attr = None\<rparr>"

subsection \<open>Formatting an integer\<close>

text \<open>\<open>str\<close> of a Python integer, as an f-string writes it: decimal, \<open>-\<close> before a negative.\<close>

definition digit :: "nat \<Rightarrow> char" where
  "digit d = ''0123456789'' ! d"

fun str_nat :: "nat \<Rightarrow> string" where
  "str_nat n = (if n < 10 then [digit n] else str_nat (n div 10) @ [digit (n mod 10)])"

declare str_nat.simps [simp del]

definition str_int :: "int \<Rightarrow> string" where
  "str_int i = (if i < 0 then CHR ''-'' # str_nat (nat (- i)) else str_nat (nat i))"

subsection \<open>search\_taxid\<close>

text \<open>
  Lines 33 to 37. \<open>if min_length:\<close> is Python's truth test: \<open>None\<close> and \<open>0\<close> are both
  false, every other integer is true.
\<close>

definition truthy :: "int option \<Rightarrow> bool" where
  "truthy v = (case v of None \<Rightarrow> False | Some i \<Rightarrow> i \<noteq> 0)"

definition search_term :: "string \<Rightarrow> int option \<Rightarrow> int option \<Rightarrow> string" where
  "search_term taxid min_length max_length =
     (let t0 = ''txid'' @ taxid @ ''[Organism]'';
          t1 = (if truthy min_length
                then t0 @ '' AND '' @ str_int (the min_length) @ '':1000000[SLEN]''
                else t0);
          t2 = (if truthy max_length
                then t1 @ '' AND 0:'' @ str_int (the max_length) @ ''[SLEN]''
                else t1)
      in t2)"

text \<open>
  Lines 27 to 29, the first step of the \<open>try\<close> body: the taxonomy request and the two
  subscripts \<open>records[0]["ScientificName"]\<close>.
\<close>

definition resolve_taxon :: "env \<Rightarrow> string \<Rightarrow> exn + string" where
  "resolve_taxon e taxid =
     (case efetch_taxonomy e taxid of
        Inl x \<Rightarrow> Inl x
      | Inr records \<Rightarrow>
         (case records of
            [] \<Rightarrow> Inl IndexError
          | r0 # _ \<Rightarrow>
             (case map_of r0 ''ScientificName'' of
                None \<Rightarrow> Inl (KeyError ''ScientificName'')
              | Some organism_name \<Rightarrow> Inr organism_name)))"

text \<open>
  Lines 22 to 57. Every exception of the \<open>try\<close> body ends in the handler, which prints
  and returns \<open>None\<close>; the object is the one the body had reached when it raised:
  \<open>self.webenv\<close> is assigned before \<open>search_results["QueryKey"]\<close> is read.
\<close>

definition search_taxid ::
  "env \<Rightarrow> retriever \<Rightarrow> string \<Rightarrow> int option \<Rightarrow> int option
     \<Rightarrow> int option \<times> retriever \<times> event list" where
  "search_taxid e self taxid min_length max_length =
     (let ev0 = [Print (Searching taxid), EfetchTaxonomy taxid] in
      case resolve_taxon e taxid of
        Inl x \<Rightarrow> (None, self, ev0 @ [Print (ErrorSearching taxid x)])
      | Inr organism_name \<Rightarrow>
         (let t = search_term taxid min_length max_length;
              ev1 = ev0 @ [Print (Organism organism_name taxid), Esearch t] in
          case esearch e t of
            Inl x \<Rightarrow> (None, self, ev1 @ [Print (ErrorSearching taxid x)])
          | Inr search_results \<Rightarrow>
             (case map_of search_results ''Count'' of
                None \<Rightarrow> (None, self, ev1 @ [Print (ErrorSearching taxid (KeyError ''Count''))])
              | Some c \<Rightarrow>
                 (case py_int e c of
                    Inl x \<Rightarrow> (None, self, ev1 @ [Print (ErrorSearching taxid x)])
                  | Inr n \<Rightarrow>
                     if n = 0
                     then (None, self, ev1 @ [Print (NoRecordsFound organism_name)])
                     else
                      (let ev2 = ev1 @ [Print (Found n)] in
                       case map_of search_results ''WebEnv'' of
                         None \<Rightarrow>
                           (None, self,
                            ev2 @ [Print (ErrorSearching taxid (KeyError ''WebEnv''))])
                       | Some w \<Rightarrow>
                          (let self1 = self\<lparr>webenv := Some w\<rparr> in
                           case map_of search_results ''QueryKey'' of
                             None \<Rightarrow>
                               (None, self1,
                                ev2 @ [Print (ErrorSearching taxid (KeyError ''QueryKey''))])
                           | Some q \<Rightarrow>
                               (Some n,
                                self1\<lparr>query_key := Some q, count_attr := Some n\<rparr>,
                                ev2)))))))"

subsection \<open>fetch\_records\<close>

text \<open>Lines 59 to 79. No attribute of the object is assigned anywhere in the method.\<close>

definition fetch_records ::
  "env \<Rightarrow> retriever \<Rightarrow> int \<Rightarrow> int \<Rightarrow> seq_record list \<times> retriever \<times> event list" where
  "fetch_records e self start max_records =
     (if webenv self = None \<or> query_key self = None
      then ([], self, [Print NoSearchResults])
      else
       (let batch_size = min max_records 500;
            w = the (webenv self);
            q = the (query_key self);
            ev = [EfetchNucleotide start batch_size w q] in
        case efetch_nucleotide e start batch_size w q of
          Inl x \<Rightarrow> ([], self, ev @ [Print (ErrorFetching x)])
        | Inr recs \<Rightarrow> (recs, self, ev)))"

subsection \<open>The two reports\<close>

text \<open>
  Lines 81 to 98: the header row, then one row per record, in the order of the list.
  The file is opened first; when that raises, nothing is written.
\<close>

definition csv_header :: "cell list" where
  "csv_header = [Str ''Accession Number'', Str ''Sequence Length'', Str ''Description'']"

definition csv_row :: "seq_record \<Rightarrow> cell list" where
  "csv_row r = [Str (id_attr r), Num (int (length (seq r))), Str (description r)]"

definition generate_csv_report :: "env \<Rightarrow> seq_record list \<Rightarrow> string \<Rightarrow> event list" where
  "generate_csv_report e records output_file =
     (case open_write e output_file of
        Some x \<Rightarrow> [OpenWrite output_file, Print (ErrorCsv x)]
      | None \<Rightarrow>
          [OpenWrite output_file, WriteRow csv_header]
          @ map (\<lambda>r. WriteRow (csv_row r)) records
          @ [Print (CsvSaved output_file)])"

text \<open>
  Lines 100 to 125. \<open>sorted(records, key=..., reverse=True)\<close> is a stable sort by
  descending key: records of equal length keep the order they had. That is the stable
  ascending sort \<open>sort_key\<close> on the negated length.
\<close>

definition sorted_records :: "seq_record list \<Rightarrow> seq_record list" where
  "sorted_records records = sort_key (\<lambda>r. - int (length (seq r))) records"

definition generate_plot :: "env \<Rightarrow> seq_record list \<Rightarrow> string \<Rightarrow> event list" where
  "generate_plot e records output_file =
     (let srt = sorted_records records;
          accession_numbers = map id_attr srt;
          sequence_lengths = map (\<lambda>r. int (length (seq r))) srt;
          ev = [Plot accession_numbers sequence_lengths, Savefig output_file] in
      case savefig e output_file of
        Some x \<Rightarrow> ev @ [Print (ErrorPlot x)]
      | None \<Rightarrow> ev @ [Print (PlotSaved output_file)])"

subsection \<open>Reading the result of a call\<close>

abbreviation returned :: "'a \<times> retriever \<times> event list \<Rightarrow> 'a" where
  "returned r \<equiv> fst r"

abbreviation object_after :: "'a \<times> retriever \<times> event list \<Rightarrow> retriever" where
  "object_after r \<equiv> fst (snd r)"

abbreviation events :: "'a \<times> retriever \<times> event list \<Rightarrow> event list" where
  "events r \<equiv> snd (snd r)"

abbreviation requests :: "'a \<times> retriever \<times> event list \<Rightarrow> event list" where
  "requests r \<equiv> filter is_request (snd (snd r))"

subsection \<open>Concrete gateways\<close>

text \<open>
  The scenario of the specification: taxid 9606 resolves to Homo sapiens and the search
  counts 42 records, of which the gateway serves the first ones. The variants differ in
  the answer to the search, or fail at the taxonomy request.
\<close>

definition int_of_count :: "string \<Rightarrow> exn + int" where
  "int_of_count s =
     (if s = ''42'' then Inr 42 else if s = ''7'' then Inr 7 else if s = ''0'' then Inr 0
      else Inl (Fault ''invalid literal for int() with base 10''))"

definition rec_a :: seq_record where
  "rec_a = \<lparr>id_attr = ''NM_1'', seq = ''ACGT'', description = ''first''\<rparr>"

definition rec_b :: seq_record where
  "rec_b = \<lparr>id_attr = ''NM_2'', seq = ''ACGTACGT'', description = ''second''\<rparr>"

definition rec_c :: seq_record where
  "rec_c = \<lparr>id_attr = ''NM_3'', seq = ''ACGT'', description = ''third''\<rparr>"

definition gw_found :: env where
  "gw_found =
     \<lparr>efetch_taxonomy = (\<lambda>t. Inr [[(''ScientificName'', ''Homo sapiens'')]]),
      esearch = (\<lambda>t. Inr [(''Count'', ''42''), (''WebEnv'', ''W1''), (''QueryKey'', ''1'')]),
      efetch_nucleotide = (\<lambda>s n w q. Inr [rec_a, rec_b, rec_c]),
      py_int = int_of_count,
      open_write = (\<lambda>p. None),
      savefig = (\<lambda>p. None)\<rparr>"

definition gw_empty :: env where
  "gw_empty = gw_found\<lparr>esearch := (\<lambda>t. Inr [(''Count'', ''0'')])\<rparr>"

definition gw_down :: env where
  "gw_down = gw_found\<lparr>efetch_taxonomy := (\<lambda>t. Inl (Fault ''HTTP Error 502''))\<rparr>"

definition gw_no_key :: env where
  "gw_no_key = gw_found\<lparr>esearch := (\<lambda>t. Inr [(''Count'', ''7''), (''WebEnv'', ''W2'')])\<rparr>"

definition fresh :: retriever where
  "fresh = NCBIRetriever_init ''a@b.c'' ''key''"

definition gw_search_down :: env where
  "gw_search_down = gw_found\<lparr>esearch := (\<lambda>t. Inl (Fault ''timed out''))\<rparr>"

text \<open>The object a successful search against \<open>gw_found\<close> leaves behind.\<close>

definition searched :: retriever where
  "searched = fresh\<lparr>webenv := Some ''W1'', query_key := Some ''1'', count_attr := Some 42\<rparr>"

subsection \<open>Reading the effects of a call\<close>

text \<open>The rows handed to the CSV writer and the series handed to \<open>plt.plot\<close>, in order.\<close>

fun rows_of :: "event list \<Rightarrow> cell list list" where
  "rows_of [] = []"
| "rows_of (WriteRow c # es) = c # rows_of es"
| "rows_of (_ # es) = rows_of es"

fun plots_of :: "event list \<Rightarrow> (string list \<times> int list) list" where
  "plots_of [] = []"
| "plots_of (Plot xs ys # es) = (xs, ys) # plots_of es"
| "plots_of (_ # es) = plots_of es"

section \<open>Properties\<close>

lemmas gw_defs = gw_found_def gw_empty_def gw_down_def gw_no_key_def gw_search_down_def
  int_of_count_def fresh_def searched_def NCBIRetriever_init_def

lemmas str_defs = str_int_def str_nat.simps digit_def

subsection \<open>Auxiliary facts\<close>

lemma search_taxid_resolve_fault:
  "resolve_taxon e taxid = Inl x \<Longrightarrow>
   search_taxid e self taxid mn mx =
     (None, self, [Print (Searching taxid), EfetchTaxonomy taxid,
                   Print (ErrorSearching taxid x)])"
  by (simp add: search_taxid_def)

lemma resolve_taxon_fault: "efetch_taxonomy e taxid = Inl x \<Longrightarrow> resolve_taxon e taxid = Inl x"
  by (simp add: resolve_taxon_def)

lemma search_taxid_requests:
  "resolve_taxon e taxid = Inr name \<Longrightarrow>
   requests (search_taxid e self taxid mn mx) =
     [EfetchTaxonomy taxid, Esearch (search_term taxid mn mx)]"
  by (simp add: search_taxid_def Let_def split: sum.splits option.splits)

lemma search_term_min_only:
  "m \<noteq> 0 \<Longrightarrow> search_term taxid (Some m) None =
     ''txid'' @ taxid @ ''[Organism]'' @ '' AND '' @ str_int m @ '':1000000[SLEN]''"
  by (simp add: search_term_def truthy_def)

lemma search_term_both:
  "m \<noteq> 0 \<Longrightarrow> M \<noteq> 0 \<Longrightarrow> search_term taxid (Some m) (Some M) =
     ''txid'' @ taxid @ ''[Organism]'' @ '' AND '' @ str_int m @ '':1000000[SLEN]''
       @ '' AND 0:'' @ str_int M @ ''[SLEN]''"
  by (simp add: search_term_def truthy_def)

lemma fetch_records_object: "object_after (fetch_records e self start m) = self"
  by (simp add: fetch_records_def Let_def split: sum.splits)

lemma search_taxid_failure_frame:
  "search_taxid e self taxid mn mx = (None, self', ev) \<Longrightarrow>
   query_key self' = query_key self \<and> count_attr self' = count_attr self \<and>
   (webenv self' = webenv self \<or>
    (\<exists>res. esearch e (search_term taxid mn mx) = Inr res \<and>
       map_of res ''WebEnv'' = webenv self' \<and> map_of res ''QueryKey'' = None))"
  by (auto simp add: search_taxid_def Let_def split: sum.splits option.splits if_splits)

lemma search_taxid_success_sets:
  "search_taxid e self taxid mn mx = (Some c, self', ev) \<Longrightarrow>
   (\<exists>w q. webenv self' = Some w \<and> query_key self' = Some q \<and> count_attr self' = Some c)"
  by (auto simp add: search_taxid_def Let_def split: sum.splits option.splits if_splits)

lemma sorted_records_mset: "mset (sorted_records rs) = mset rs"
  by (simp add: sorted_records_def)

lemma sorted_records_desc:
  "sorted_wrt (\<lambda>a b. length (seq b) \<le> length (seq a)) (sorted_records rs)"
proof -
  have "sorted (map (\<lambda>r. - int (length (seq r))) (sorted_records rs))"
    by (simp add: sorted_records_def)
  then show ?thesis
    by (simp add: sorted_map sorted_wrt_iff_nth_less)
qed

lemma sorted_records_stable:
  "filter (\<lambda>r. length (seq r) = k) (sorted_records rs) = filter (\<lambda>r. length (seq r) = k) rs"
proof -
  have "filter (\<lambda>r. - int (length (seq r)) = - int k) (sorted_records rs)
      = filter (\<lambda>r. - int (length (seq r)) = - int k) rs"
    unfolding sorted_records_def by (rule sort_key_stable)
  then show ?thesis by simp
qed

lemma rows_of_append: "rows_of (xs @ ys) = rows_of xs @ rows_of ys"
  by (induction xs rule: rows_of.induct) simp_all

lemma rows_of_map_WriteRow: "rows_of (map (\<lambda>r. WriteRow (f r)) rs) = map f rs"
  by (induction rs) simp_all

subsection \<open>Search with no matching record\<close>

text \<open>
  Claim C1, as the code has it. When the taxon resolves and the search answers with a
  \<open>Count\<close> that reads as 0, \<open>search_taxid\<close> prints the line "No records found for ..."
  with the organism name and returns \<open>None\<close>; the object is left as it was, so the call
  sets none of \<open>webenv\<close>, \<open>query_key\<close>, \<open>count\<close>. On a fault of the taxonomy request it
  returns \<open>None\<close> as well: the two outcomes differ in the line printed, not in the value
  returned.
\<close>

theorem search_taxid_no_records:
  assumes "resolve_taxon e taxid = Inr name"
      and "esearch e (search_term taxid mn mx) = Inr res"
      and "map_of res ''Count'' = Some c"
      and "py_int e c = Inr 0"
      and "efetch_taxonomy e' taxid' = Inl x"
  shows "search_taxid e self taxid mn mx =
           (None, self,
            [Print (Searching taxid), EfetchTaxonomy taxid, Print (Organism name taxid),
             Esearch (search_term taxid mn mx), Print (NoRecordsFound name)])
         \<and> search_taxid e' self' taxid' mn' mx' =
           (None, self',
            [Print (Searching taxid'), EfetchTaxonomy taxid',
             Print (ErrorSearching taxid' x)])"
  using assms
  by (simp add: search_taxid_def resolve_taxon_fault)

text \<open>The same two calls, on the concrete gateways.\<close>

theorem search_taxid_no_records_witness:
  "resolve_taxon gw_empty ''9606'' = Inr ''Homo sapiens''
   \<and> esearch gw_empty (search_term ''9606'' (Some 500) None) = Inr [(''Count'', ''0'')]
   \<and> map_of [(''Count'', ''0'')] ''Count'' = Some ''0''
   \<and> py_int gw_empty ''0'' = Inr 0
   \<and> efetch_taxonomy gw_down ''9606'' = Inl (Fault ''HTTP Error 502'')
   \<and> search_taxid gw_empty fresh ''9606'' (Some 500) None =
       (None, fresh,
        [Print (Searching ''9606''), EfetchTaxonomy ''9606'',
         Print (Organism ''Homo sapiens'' ''9606''),
         Esearch ''txid9606[Organism] AND 500:1000000[SLEN]'',
         Print (NoRecordsFound ''Homo sapiens'')])
   \<and> search_taxid gw_down fresh ''9606'' (Some 500) None =
       (None, fresh,
        [Print (Searching ''9606''), EfetchTaxonomy ''9606'',
         Print (ErrorSearching ''9606'' (Fault ''HTTP Error 502''))])"
proof -
  have h1: "resolve_taxon gw_empty ''9606'' = Inr ''Homo sapiens''"
    by (simp add: resolve_taxon_def gw_defs)
  have h2: "esearch gw_empty (search_term ''9606'' (Some 500) None) = Inr [(''Count'', ''0'')]"
    by (simp add: gw_defs)
  have h3: "map_of [(''Count'', ''0'')] ''Count'' = Some ''0''"
    by simp
  have h4: "py_int gw_empty ''0'' = Inr 0"
    by (simp add: gw_defs)
  have h5: "efetch_taxonomy gw_down ''9606'' = Inl (Fault ''HTTP Error 502'')"
    by (simp add: gw_defs)
  have t: "search_term ''9606'' (Some 500) None = ''txid9606[Organism] AND 500:1000000[SLEN]''"
    by (simp add: search_term_def truthy_def str_defs)
  show ?thesis
    using h1 h2 h3 h4 h5
      search_taxid_no_records [OF h1 h2 h3 h4 h5, of fresh fresh "Some 500" None]
    by (simp add: t)
qed

text \<open>
  Claim C1 as stated asks for a returned outcome that differs from the one of a gateway
  fault. Both calls return \<open>None\<close>.
\<close>

theorem no_records_returns_what_a_fault_returns:
  "returned (search_taxid gw_empty fresh ''9606'' (Some 500) None) = None
   \<and> returned (search_taxid gw_down fresh ''9606'' (Some 500) None) = None"
  by (simp add: search_taxid_def resolve_taxon_def gw_defs)

subsection \<open>Query with a minimum only\<close>

text \<open>
  Claim C2, as the code has it. When the taxon resolves, the minimum is present and not
  zero and the maximum is absent, the query sent to the search operation is the taxon
  clause, \<open>AND\<close>, and one length clause from the minimum to the sentinel 1000000.
\<close>

theorem min_only_query:
  assumes "resolve_taxon e taxid = Inr name" and "m \<noteq> 0"
  shows "requests (search_taxid e self taxid (Some m) None) =
           [EfetchTaxonomy taxid,
            Esearch (''txid'' @ taxid @ ''[Organism]''
                     @ '' AND '' @ str_int m @ '':1000000[SLEN]'')]"
  using assms by (simp add: search_taxid_requests search_term_min_only)

text \<open>Minimum 500, no maximum.\<close>

theorem min_only_query_witness:
  "resolve_taxon gw_found ''9606'' = Inr ''Homo sapiens'' \<and> (500::int) \<noteq> 0
   \<and> requests (search_taxid gw_found fresh ''9606'' (Some 500) None) =
       [EfetchTaxonomy ''9606'', Esearch ''txid9606[Organism] AND 500:1000000[SLEN]'']"
proof -
  have h1: "resolve_taxon gw_found ''9606'' = Inr ''Homo sapiens''"
    by (simp add: resolve_taxon_def gw_defs)
  have h2: "(500::int) \<noteq> 0" by simp
  show ?thesis
    using h1 min_only_query [OF h1 h2, of fresh]
    by (simp add: str_defs)
qed

text \<open>
  Claim C2 as stated covers every present minimum. A minimum of 0 is present and fails
  the truth test of line 34: the query is the taxon clause alone.
\<close>

theorem min_zero_query_has_one_clause:
  "requests (search_taxid gw_found fresh ''9606'' (Some 0) None) =
     [EfetchTaxonomy ''9606'', Esearch ''txid9606[Organism]'']"
  by (simp add: search_taxid_def resolve_taxon_def search_term_def truthy_def gw_defs)

subsection \<open>Batch size\<close>

text \<open>
  Claim C3. Once a search has stored the token and the query key, \<open>fetch_records\<close> with a
  positive \<open>max_records\<close> issues exactly one gateway request, whose \<open>retmax\<close> is
  \<open>min(max_records, 500)\<close>, hence never above 500.
\<close>

theorem fetch_records_batch_size:
  assumes "webenv self = Some w" and "query_key self = Some q" and "0 < m"
  shows "requests (fetch_records e self start m) = [EfetchNucleotide start (min m 500) w q]
         \<and> min m 500 \<le> 500"
  using assms by (simp add: fetch_records_def Let_def split: sum.splits)

text \<open>A request for 10000 records asks the gateway for 500.\<close>

theorem fetch_records_batch_size_witness:
  "webenv searched = Some ''W1'' \<and> query_key searched = Some ''1'' \<and> (0::int) < 10000
   \<and> requests (fetch_records gw_found searched 0 10000) = [EfetchNucleotide 0 500 ''W1'' ''1'']"
proof -
  have h1: "webenv searched = Some ''W1''" by (simp add: gw_defs)
  have h2: "query_key searched = Some ''1''" by (simp add: gw_defs)
  have h3: "(0::int) < 10000" by simp
  show ?thesis
    using h1 h2 fetch_records_batch_size [OF h1 h2 h3, of gw_found 0]
    by simp
qed

subsection \<open>Fetch without a search\<close>

text \<open>
  Claim C4. When the token or the query key has never been stored, \<open>fetch_records\<close>
  returns the empty list, prints "No search results to fetch. Run search\_taxid() first."
  and does nothing else: no exception, no gateway request.
\<close>

theorem fetch_records_without_search:
  assumes "webenv self = None \<or> query_key self = None"
  shows "fetch_records e self start m = ([], self, [Print NoSearchResults])"
  using assms by (auto simp add: fetch_records_def)

text \<open>The object as \<open>__init__\<close> leaves it.\<close>

theorem fetch_records_without_search_witness:
  "(webenv fresh = None \<or> query_key fresh = None)
   \<and> fetch_records gw_found fresh 0 10 = ([], fresh, [Print NoSearchResults])"
proof -
  have h: "webenv fresh = None \<or> query_key fresh = None" by (simp add: gw_defs)
  show ?thesis
    using h fetch_records_without_search [OF h, of gw_found 0 10] by simp
qed

subsection \<open>Gateway faults during a search\<close>

text \<open>
  Claim C5. When the taxonomy request raises, or the taxon resolves and the search request
  raises, \<open>search_taxid\<close> catches the exception, prints "Error searching TaxID ..." with
  it as its last line, returns \<open>None\<close>, and leaves the object exactly as it was.
\<close>

theorem search_taxid_gateway_fault:
  assumes "efetch_taxonomy e taxid = Inl x
           \<or> (resolve_taxon e taxid = Inr name \<and> esearch e (search_term taxid mn mx) = Inl x)"
  shows "returned (search_taxid e self taxid mn mx) = None
         \<and> object_after (search_taxid e self taxid mn mx) = self
         \<and> last (events (search_taxid e self taxid mn mx)) = Print (ErrorSearching taxid x)"
  using assms
  by (auto simp add: search_taxid_def resolve_taxon_fault)

text \<open>
  A fault at the taxonomy request and a fault at the search request, each on an object
  that already holds a session.
\<close>

theorem search_taxid_gateway_fault_witness:
  "(efetch_taxonomy gw_down ''9606'' = Inl (Fault ''HTTP Error 502'')
    \<or> (resolve_taxon gw_down ''9606'' = Inr ''Homo sapiens''
        \<and> esearch gw_down (search_term ''9606'' (Some 500) None) = Inl (Fault ''HTTP Error 502'')))
   \<and> search_taxid gw_down searched ''9606'' (Some 500) None =
       (None, searched,
        [Print (Searching ''9606''), EfetchTaxonomy ''9606'',
         Print (ErrorSearching ''9606'' (Fault ''HTTP Error 502''))])
   \<and> (efetch_taxonomy gw_search_down ''9606'' = Inl (Fault ''timed out'')
    \<or> (resolve_taxon gw_search_down ''9606'' = Inr ''Homo sapiens''
        \<and> esearch gw_search_down (search_term ''9606'' (Some 500) None) = Inl (Fault ''timed out'')))
   \<and> returned (search_taxid gw_search_down searched ''9606'' (Some 500) None) = None
   \<and> object_after (search_taxid gw_search_down searched ''9606'' (Some 500) None) = searched
   \<and> last (events (search_taxid gw_search_down searched ''9606'' (Some 500) None)) =
       Print (ErrorSearching ''9606'' (Fault ''timed out''))"
proof -
  have h1: "efetch_taxonomy gw_down ''9606'' = Inl (Fault ''HTTP Error 502'')
    \<or> (resolve_taxon gw_down ''9606'' = Inr ''Homo sapiens''
        \<and> esearch gw_down (search_term ''9606'' (Some 500) None) = Inl (Fault ''HTTP Error 502''))"
    by (simp add: gw_defs)
  have h2: "efetch_taxonomy gw_search_down ''9606'' = Inl (Fault ''timed out'')
    \<or> (resolve_taxon gw_search_down ''9606'' = Inr ''Homo sapiens''
        \<and> esearch gw_search_down (search_term ''9606'' (Some 500) None) = Inl (Fault ''timed out''))"
    by (simp add: resolve_taxon_def gw_defs)
  have d: "search_taxid gw_down searched ''9606'' (Some 500) None =
       (None, searched,
        [Print (Searching ''9606''), EfetchTaxonomy ''9606'',
         Print (ErrorSearching ''9606'' (Fault ''HTTP Error 502''))])"
    by (simp add: search_taxid_def resolve_taxon_def gw_defs)
  show ?thesis
    using h1 h2 d
      search_taxid_gateway_fault [OF h1, of searched]
      search_taxid_gateway_fault [OF h2, of searched]
    by simp
qed

subsection \<open>Query with both bounds\<close>

text \<open>
  Claim C6, as the code has it. When the taxon resolves and both bounds are present and
  not zero, the query has three clauses joined by \<open>AND\<close>: the taxon clause, the clause
  from the minimum to 1000000, the clause from 0 to the maximum.
\<close>

theorem min_max_query:
  assumes "resolve_taxon e taxid = Inr name" and "m \<noteq> 0" and "M \<noteq> 0"
  shows "requests (search_taxid e self taxid (Some m) (Some M)) =
           [EfetchTaxonomy taxid,
            Esearch (''txid'' @ taxid @ ''[Organism]''
                     @ '' AND '' @ str_int m @ '':1000000[SLEN]''
                     @ '' AND 0:'' @ str_int M @ ''[SLEN]'')]"
  using assms by (simp add: search_taxid_requests search_term_both)

text \<open>Minimum 500, maximum 2000.\<close>

theorem min_max_query_witness:
  "resolve_taxon gw_found ''9606'' = Inr ''Homo sapiens'' \<and> (500::int) \<noteq> 0 \<and> (2000::int) \<noteq> 0
   \<and> requests (search_taxid gw_found fresh ''9606'' (Some 500) (Some 2000)) =
       [EfetchTaxonomy ''9606'',
        Esearch ''txid9606[Organism] AND 500:1000000[SLEN] AND 0:2000[SLEN]'']"
proof -
  have h1: "resolve_taxon gw_found ''9606'' = Inr ''Homo sapiens''"
    by (simp add: resolve_taxon_def gw_defs)
  have h2: "(500::int) \<noteq> 0" by simp
  have h3: "(2000::int) \<noteq> 0" by simp
  show ?thesis
    using h1 min_max_query [OF h1 h2 h3, of fresh]
    by (simp add: str_defs)
qed

text \<open>
  Claim C6 as stated covers every pair of present bounds. With the bounds that \<open>main\<close>
  passes for two blank answers, 0 and 1000000, the minimum fails the truth test and the
  query has two clauses.
\<close>

theorem zero_min_query_has_two_clauses:
  "requests (search_taxid gw_found fresh ''9606'' (Some 0) (Some 1000000)) =
     [EfetchTaxonomy ''9606'', Esearch ''txid9606[Organism] AND 0:1000000[SLEN]'']"
  by (simp add: search_taxid_def resolve_taxon_def search_term_def truthy_def gw_defs str_defs)

subsection \<open>Fetch leaves the session alone\<close>

text \<open>
  Claim C7. Whatever its arguments and whatever the gateway answers, \<open>fetch_records\<close>
  leaves the object as it was: token, query key and count are those of before the call.
\<close>

theorem fetch_records_leaves_session:
  "object_after (fetch_records e self start m) = self
   \<and> webenv (object_after (fetch_records e self start m)) = webenv self
   \<and> query_key (object_after (fetch_records e self start m)) = query_key self
   \<and> count_attr (object_after (fetch_records e self start m)) = count_attr self"
  by (simp add: fetch_records_def Let_def split: sum.splits)

subsection \<open>Repeated fetch\<close>

text \<open>
  Claim C8. Against a gateway that is a fixed function of its request, a second call of
  \<open>fetch_records\<close> with the same arguments, made on the object the first call left,
  returns the same list of records as the first.
\<close>

theorem fetch_records_twice:
  "returned (fetch_records e (object_after (fetch_records e self start m)) start m)
     = returned (fetch_records e self start m)"
  by (simp add: fetch_records_object)

subsection \<open>Order of the two reports\<close>

text \<open>
  Claim C9. When the report file opens, the rows written are the header row and then one
  row per record in the order of the input. The plot receives the accessions and lengths
  of the same records (the same multiset) in descending order of sequence length, records
  of equal length keeping their input order.
\<close>

theorem reports_order:
  assumes "open_write e csv_file = None"
  shows "rows_of (generate_csv_report e records csv_file) = csv_header # map csv_row records
         \<and> plots_of (generate_plot e records png_file) =
             [(map id_attr (sorted_records records),
               map (\<lambda>r. int (length (seq r))) (sorted_records records))]
         \<and> mset (sorted_records records) = mset records
         \<and> sorted_wrt (\<lambda>a b. length (seq b) \<le> length (seq a)) (sorted_records records)
         \<and> filter (\<lambda>r. length (seq r) = k) (sorted_records records)
             = filter (\<lambda>r. length (seq r) = k) records"
proof -
  have csv: "rows_of (generate_csv_report e records csv_file) = csv_header # map csv_row records"
    using assms by (simp add: generate_csv_report_def rows_of_append rows_of_map_WriteRow)
  have plot: "plots_of (generate_plot e records png_file) =
             [(map id_attr (sorted_records records),
               map (\<lambda>r. int (length (seq r))) (sorted_records records))]"
    by (simp add: generate_plot_def Let_def split: option.splits)
  show ?thesis
    using csv plot sorted_records_mset sorted_records_desc sorted_records_stable by blast
qed

text \<open>
  Three records of lengths 4, 8, 4: the table keeps the input order, the plot puts the
  longest first.
\<close>

theorem reports_order_witness:
  "open_write gw_found ''taxid_9606_report.csv'' = None
   \<and> rows_of (generate_csv_report gw_found [rec_a, rec_b, rec_c] ''taxid_9606_report.csv'') =
       [[Str ''Accession Number'', Str ''Sequence Length'', Str ''Description''],
        [Str ''NM_1'', Num 4, Str ''first''],
        [Str ''NM_2'', Num 8, Str ''second''],
        [Str ''NM_3'', Num 4, Str ''third'']]
   \<and> plots_of (generate_plot gw_found [rec_a, rec_b, rec_c] ''taxid_9606_plot.png'') =
       [([''NM_2'', ''NM_1'', ''NM_3''], [8, 4, 4])]"
proof -
  have h: "open_write gw_found ''taxid_9606_report.csv'' = None" by (simp add: gw_defs)
  have s: "sorted_records [rec_a, rec_b, rec_c] = [rec_b, rec_a, rec_c]"
    by (simp add: sorted_records_def rec_a_def rec_b_def rec_c_def)
  note r = reports_order [OF h, where records = "[rec_a, rec_b, rec_c]"
      and png_file = "''taxid_9606_plot.png''" and k = 4]
  from r have rows:
    "rows_of (generate_csv_report gw_found [rec_a, rec_b, rec_c] ''taxid_9606_report.csv'')
       = csv_header # map csv_row [rec_a, rec_b, rec_c]"
    by blast
  from r have plots:
    "plots_of (generate_plot gw_found [rec_a, rec_b, rec_c] ''taxid_9606_plot.png'') =
       [(map id_attr (sorted_records [rec_a, rec_b, rec_c]),
         map (\<lambda>r. int (length (seq r))) (sorted_records [rec_a, rec_b, rec_c]))]"
    by blast
  have plots':
    "plots_of (generate_plot gw_found [rec_a, rec_b, rec_c] ''taxid_9606_plot.png'') =
       [(map id_attr [rec_b, rec_a, rec_c],
         map (\<lambda>r. int (length (seq r))) [rec_b, rec_a, rec_c])]"
    using plots unfolding s .
  show ?thesis
    using h rows plots'
    by (simp add: csv_header_def csv_row_def rec_a_def rec_b_def rec_c_def)
qed

subsection \<open>Fetch after a failed later search\<close>

text \<open>
  Claim C10, as the code has it. After a successful search, a later search that returns
  \<open>None\<close>, and whose answer (if any) does not carry a \<open>WebEnv\<close> without a \<open>QueryKey\<close>,
  leaves the object of the earlier search untouched; a following \<open>fetch_records\<close> then
  does not print the no-session line and issues the gateway request with the earlier
  token and query key.
\<close>

theorem stale_session_after_failed_search:
  assumes "search_taxid e1 self0 t1 a1 b1 = (Some c, self1, ev1)"
      and "search_taxid e2 self1 t2 a2 b2 = (None, self2, ev2)"
      and "case esearch e2 (search_term t2 a2 b2) of
             Inl x \<Rightarrow> True
           | Inr res \<Rightarrow> map_of res ''WebEnv'' = None \<or> map_of res ''QueryKey'' \<noteq> None"
  shows "self2 = self1
         \<and> (\<exists>w q. webenv self1 = Some w \<and> query_key self1 = Some q
                \<and> Print NoSearchResults \<notin> set (events (fetch_records e3 self2 start m))
                \<and> requests (fetch_records e3 self2 start m) =
                    [EfetchNucleotide start (min m 500) w q])"
proof -
  from assms(1) obtain w q where wq: "webenv self1 = Some w" "query_key self1 = Some q"
    using search_taxid_success_sets by blast
  have same: "self2 = self1"
    using assms(2,3)
    by (auto simp add: search_taxid_def Let_def split: sum.splits option.splits if_splits)
  have "Print NoSearchResults \<notin> set (events (fetch_records e3 self1 start m))
        \<and> requests (fetch_records e3 self1 start m) = [EfetchNucleotide start (min m 500) w q]"
    using wq by (simp add: fetch_records_def Let_def split: sum.splits)
  with wq same show ?thesis by blast
qed

text \<open>A successful search, then one that fails at the taxonomy request, then a fetch.\<close>

theorem stale_session_after_failed_search_witness:
  "search_taxid gw_found fresh ''9606'' (Some 500) None =
     (Some 42, searched,
      [Print (Searching ''9606''), EfetchTaxonomy ''9606'',
       Print (Organism ''Homo sapiens'' ''9606''),
       Esearch ''txid9606[Organism] AND 500:1000000[SLEN]'', Print (Found 42)])
   \<and> search_taxid gw_down searched ''562'' None None =
     (None, searched,
      [Print (Searching ''562''), EfetchTaxonomy ''562'',
       Print (ErrorSearching ''562'' (Fault ''HTTP Error 502''))])
   \<and> (case esearch gw_down (search_term ''562'' None None) of
         Inl x \<Rightarrow> True
       | Inr res \<Rightarrow> map_of res ''WebEnv'' = None \<or> map_of res ''QueryKey'' \<noteq> None)
   \<and> requests (fetch_records gw_found searched 0 10) = [EfetchNucleotide 0 10 ''W1'' ''1'']"
proof -
  have h1: "search_taxid gw_found fresh ''9606'' (Some 500) None =
     (Some 42, searched,
      [Print (Searching ''9606''), EfetchTaxonomy ''9606'',
       Print (Organism ''Homo sapiens'' ''9606''),
       Esearch ''txid9606[Organism] AND 500:1000000[SLEN]'', Print (Found 42)])"
    by (simp add: search_taxid_def resolve_taxon_def search_term_def truthy_def gw_defs str_defs)
  have h2: "search_taxid gw_down searched ''562'' None None =
     (None, searched,
      [Print (Searching ''562''), EfetchTaxonomy ''562'',
       Print (ErrorSearching ''562'' (Fault ''HTTP Error 502''))])"
    by (simp add: search_taxid_def resolve_taxon_def gw_defs)
  have h3: "case esearch gw_down (search_term ''562'' None None) of
         Inl x \<Rightarrow> True
       | Inr res \<Rightarrow> map_of res ''WebEnv'' = None \<or> map_of res ''QueryKey'' \<noteq> None"
    by (simp add: gw_defs)
  have w: "webenv searched = Some ''W1''" "query_key searched = Some ''1''"
    by (simp_all add: gw_defs)
  show ?thesis
    using h1 h2 h3 w stale_session_after_failed_search [OF h1 h2 h3, of gw_found 0 10]
    by auto
qed

text \<open>
  Claim C10 as stated covers every later search that returns \<open>None\<close>. When the later
  answer carries \<open>WebEnv\<close> but no \<open>QueryKey\<close>, line 51 has stored the new token before
  line 52 raises: the fetch goes out with the new token and the old query key.
\<close>

theorem failed_search_can_replace_the_token:
  "returned (search_taxid gw_found fresh ''9606'' (Some 500) None) = Some 42
   \<and> webenv (object_after (search_taxid gw_found fresh ''9606'' (Some 500) None)) = Some ''W1''
   \<and> returned (search_taxid gw_no_key searched ''9606'' (Some 500) None) = None
   \<and> requests (fetch_records gw_found
        (object_after (search_taxid gw_no_key searched ''9606'' (Some 500) None)) 0 10)
       = [EfetchNucleotide 0 10 ''W2'' ''1'']"
  by (simp add: search_taxid_def resolve_taxon_def fetch_records_def gw_defs)

end
